theory Spec2Isabelle
  imports Complex_Main
begin

section \<open>JavaScript values of the numeric payload fields\<close>

text \<open>
  The sentiment and prediction fields of the JSON payloads are numbers. A field of an
  item is read as \<open>Undefined\<close> when the key is missing, \<open>Null\<close> when the payload holds
  \<open>null\<close>, and \<open>Num x\<close> otherwise; \<open>NaN\<close> only arises from arithmetic. Fields
  holding strings or objects are outside this model.

  Numbers are reals and arithmetic is exact, where the source rounds every product
  and sum to the nearest double. That rounding is monotone and leaves the integers
  that occur here unchanged, so a closed bound between integers that holds of the
  exact value holds of the rounded one; a strict bound need not
  (\<^verbatim>\<open>Math.random() * 40 + 50\<close> is exactly 90 for the largest draws). The properties
  below state closed bounds only, except below \<^verbatim>\<open>Math.floor\<close>, where the source also
  stays under the next integer.
\<close>

datatype jsval = Undefined | Null | NaN | Num real

text \<open>Truthiness, as tested by \<^verbatim>\<open>||\<close>.\<close>

fun truthy :: "jsval \<Rightarrow> bool" where
  "truthy (Num x) = (x \<noteq> 0)"
| "truthy Undefined = False"
| "truthy Null = False"
| "truthy NaN = False"

text \<open>Nullishness, as tested by \<^verbatim>\<open>??\<close>.\<close>

fun nullish :: "jsval \<Rightarrow> bool" where
  "nullish Undefined = True"
| "nullish Null = True"
| "nullish NaN = False"
| "nullish (Num x) = False"

text \<open>\<^verbatim>\<open>a || b\<close> and \<^verbatim>\<open>a ?? b\<close>, for operands without side effects.\<close>

definition js_or :: "jsval \<Rightarrow> jsval \<Rightarrow> jsval" where
  "js_or a b = (if truthy a then a else b)"

definition js_nc :: "jsval \<Rightarrow> jsval \<Rightarrow> jsval" where
  "js_nc a b = (if nullish a then b else a)"

text \<open>ToNumber: \<open>None\<close> stands for NaN.\<close>

fun to_number :: "jsval \<Rightarrow> real option" where
  "to_number (Num x) = Some x"
| "to_number Null = Some 0"
| "to_number Undefined = None"
| "to_number NaN = None"

definition js_add :: "jsval \<Rightarrow> jsval \<Rightarrow> jsval" where
  "js_add a b =
     (case (to_number a, to_number b) of
        (Some x, Some y) \<Rightarrow> Num (x + y)
      | _ \<Rightarrow> NaN)"

definition js_sub :: "jsval \<Rightarrow> jsval \<Rightarrow> jsval" where
  "js_sub a b =
     (case (to_number a, to_number b) of
        (Some x, Some y) \<Rightarrow> Num (x - y)
      | _ \<Rightarrow> NaN)"

text \<open>\<^verbatim>\<open>a <= b\<close>: false as soon as one side is NaN.\<close>

definition js_le :: "jsval \<Rightarrow> jsval \<Rightarrow> bool" where
  "js_le a b =
     (case (to_number a, to_number b) of
        (Some x, Some y) \<Rightarrow> x \<le> y
      | _ \<Rightarrow> False)"

section \<open>Labels, the clock and Math.random\<close>

text \<open>
  The string fields that carry a time or a date. \<open>Text s\<close> is a string taken from a
  payload or a literal; \<open>LocaleTime t\<close> stands for
  \<^verbatim>\<open>new Date(t).toLocaleTimeString()\<close> at the instant \<open>t\<close> (milliseconds);
  \<open>LocaleDate d\<close> stands for \<^verbatim>\<open>toLocaleDateString\<close> of the calendar day \<open>d\<close>.
  The locale formatting itself is not modelled: a label is identified with the
  instant or day that it prints.
\<close>

datatype label = Text string | LocaleTime int | LocaleDate int

fun truthy_label :: "label option \<Rightarrow> bool" where
  "truthy_label None = False"
| "truthy_label (Some (Text s)) = (s \<noteq> [])"
| "truthy_label (Some (LocaleTime t)) = True"
| "truthy_label (Some (LocaleDate d)) = True"

text \<open>\<^verbatim>\<open>s || t\<close> on an optional label: a missing field and the empty string are falsy.\<close>

definition label_or :: "label option \<Rightarrow> label \<Rightarrow> label" where
  "label_or s t = (case s of None \<Rightarrow> t | Some l \<Rightarrow> (if truthy_label (Some l) then l else t))"

text \<open>
  \<^verbatim>\<open>Math.random()\<close>: the generator is the sequence of the values that the next calls
  return; a call returns the head and leaves the rest. A generator is valid when
  every value lies in [0, 1).
\<close>

type_synonym rng = "nat \<Rightarrow> real"

definition Math_random :: "rng \<Rightarrow> real \<times> rng" where
  "Math_random g = (g 0, \<lambda>n. g (Suc n))"

definition valid_rng :: "rng \<Rightarrow> bool" where
  "valid_rng g = (\<forall>n. 0 \<le> g n \<and> g n < 1)"

text \<open>\<^verbatim>\<open>Math.floor(Math.random() * k) + c\<close>, given the value drawn.\<close>

definition floor_scaled :: "real \<Rightarrow> real \<Rightarrow> real \<Rightarrow> jsval" where
  "floor_scaled r k c = Num (real_of_int \<lfloor>r * k\<rfloor> + c)"


datatype js_error = RequestFailed string | TypeError

text \<open>
  The time zone of the host, as the two conversions of the language: \<open>local_of_utc\<close>
  is LocalTime, from an instant to the local wall-clock value, and \<open>utc_of_local\<close> is
  UTC, from a wall-clock value back to an instant (for a wall-clock value that a
  change of offset skips or repeats, the zone fixes which instant is meant).
\<close>

record timezone =
  local_of_utc :: "int \<Rightarrow> int"
  utc_of_local :: "int \<Rightarrow> int"

text \<open>
  \<^verbatim>\<open>d.setMinutes(d.getMinutes() - i)\<close> on a date at the instant \<open>t\<close>: the minutes are
  subtracted from the local wall-clock value, which is then converted back.
\<close>

definition setMinutes_back :: "timezone \<Rightarrow> int \<Rightarrow> int \<Rightarrow> int" where
  "setMinutes_back tz t i = utc_of_local tz (local_of_utc tz t - i * 60000)"

section \<open>Prediction items and the dashboard's prediction mapping\<close>

text \<open>
  One element of the predictions array: the fields that \<^verbatim>\<open>loadPredictions\<close> reads and
  that \<^verbatim>\<open>generateMockPredictions\<close> writes, and the \<^verbatim>\<open>model_source\<close> key of the
  data model. \<open>p_date\<close>, \<open>p_day\<close>, \<open>p_value\<close> and \<open>p_confidence\<close> are the keys
  \<^verbatim>\<open>date\<close>, \<^verbatim>\<open>day\<close>, \<^verbatim>\<open>value\<close> and \<^verbatim>\<open>confidence\<close>. A key that an object literal
  does not write reads as \<open>Undefined\<close> (\<open>None\<close> for a string).
\<close>

record pred_item =
  p_date :: "label option"
  p_day :: "label option"
  predicted :: jsval
  p_value :: jsval
  positive_score :: jsval
  negative_score :: jsval
  neutral_score :: jsval
  upper :: jsval
  upper_bound :: jsval
  lower :: jsval
  lower_bound :: jsval
  p_confidence :: jsval
  model_source :: "string option"

text \<open>
  The object that a mapping builds for the chart; \<open>c_date\<close> is \<open>None\<close> when the
  mapping copies a missing \<^verbatim>\<open>date\<close>.
\<close>

record chart_point =
  c_date :: "label option"
  c_predicted :: jsval
  c_upper :: jsval
  c_lower :: jsval
  c_confidence :: jsval

text \<open>
  The arrow function of \<^verbatim>\<open>loadPredictions\<close> in the dashboard of part_000 (both of its
  branches apply the same function).
\<close>

definition loadPredictions_map_000 :: "pred_item \<Rightarrow> chart_point" where
  "loadPredictions_map_000 d =
     \<lparr> c_date = Some (label_or (p_date d) (Text [])),
       c_predicted = js_or (js_or (predicted d) (positive_score d)) (Num 0),
       c_upper = js_or (js_or (upper d) (upper_bound d))
                   (js_add (js_or (predicted d) (Num 0)) (Num 3)),
       c_lower = js_or (js_or (lower d) (lower_bound d))
                   (js_sub (js_or (predicted d) (Num 0)) (Num 3)),
       c_confidence = js_or (p_confidence d) (Num 0) \<rparr>"

text \<open>
  The two arrow functions of \<^verbatim>\<open>loadPredictions\<close> in the dashboard of part_001: the
  one of the array branch (lines 269-274), which defaults the bounds, and the one of
  the \<^verbatim>\<open>data.predictions\<close> branch (lines 276-281), which copies the four fields.
  Neither writes a \<^verbatim>\<open>confidence\<close>, which reads as undefined.
\<close>

definition loadPredictions_map_001_array :: "pred_item \<Rightarrow> chart_point" where
  "loadPredictions_map_001_array d =
     \<lparr> c_date = Some (label_or (p_date d) (label_or (p_day d) (Text []))),
       c_predicted = js_or (js_or (predicted d) (p_value d)) (Num 0),
       c_upper = js_or (js_or (upper d) (upper_bound d)) (js_add (predicted d) (Num 3)),
       c_lower = js_or (js_or (lower d) (lower_bound d)) (js_sub (predicted d) (Num 3)),
       c_confidence = Undefined \<rparr>"

definition loadPredictions_map_001_envelope :: "pred_item \<Rightarrow> chart_point" where
  "loadPredictions_map_001_envelope d =
     \<lparr> c_date = p_date d,
       c_predicted = predicted d,
       c_upper = upper d,
       c_lower = lower d,
       c_confidence = Undefined \<rparr>"

text \<open>
  The five default predictions: \<^verbatim>\<open>getMockPredictiveData()\<close> of part_000 and
  \<^verbatim>\<open>defaultPredictions\<close> of part_001 hold the same values.
\<close>

definition defaultPredictions :: "chart_point list" where
  "defaultPredictions =
     [\<lparr> c_date = Some (Text ''10/25''), c_predicted = Num 80, c_upper = Num 85,
        c_lower = Num 75, c_confidence = Num 85 \<rparr>,
      \<lparr> c_date = Some (Text ''10/26''), c_predicted = Num 82, c_upper = Num 87,
        c_lower = Num 77, c_confidence = Num 82 \<rparr>,
      \<lparr> c_date = Some (Text ''10/27''), c_predicted = Num 79, c_upper = Num 85,
        c_lower = Num 73, c_confidence = Num 78 \<rparr>,
      \<lparr> c_date = Some (Text ''10/28''), c_predicted = Num 85, c_upper = Num 92,
        c_lower = Num 78, c_confidence = Num 75 \<rparr>,
      \<lparr> c_date = Some (Text ''10/29''), c_predicted = Num 83, c_upper = Num 91,
        c_lower = Num 75, c_confidence = Num 72 \<rparr>]"

text \<open>
  The body of a predictions response, as far as \<^verbatim>\<open>loadPredictions\<close> tells bodies
  apart: an object with its \<^verbatim>\<open>success\<close> flag and its \<^verbatim>\<open>predictions\<close> array (\<open>None\<close>
  when that key is missing or null), an object whose \<^verbatim>\<open>predictions\<close> is truthy but
  no array, an array, or anything else. The elements of an array are objects.
\<close>

datatype pred_response =
    PredEnvelope bool "pred_item list option"
  | PredMalformed bool
  | PredArray "pred_item list"
  | PredOther

text \<open>
  \<^verbatim>\<open>loadPredictions\<close> of part_000: \<open>api\<close> is the outcome of
  \<^verbatim>\<open>await getPredictionsApi(5)\<close>, the result is the new \<^verbatim>\<open>predictiveData\<close>. With a
  truthy \<^verbatim>\<open>success\<close> it maps \<^verbatim>\<open>response.predictions || []\<close>, and \<^verbatim>\<open>map\<close> on a value
  that is no array throws into the \<^verbatim>\<open>catch\<close>.
\<close>

definition loadPredictions_000 :: "js_error + pred_response \<Rightarrow> chart_point list" where
  "loadPredictions_000 api =
     (case api of
        Inl e \<Rightarrow> defaultPredictions
      | Inr (PredEnvelope success ps) \<Rightarrow>
          (if success
           then map loadPredictions_map_000 (case ps of None \<Rightarrow> [] | Some xs \<Rightarrow> xs)
           else defaultPredictions)
      | Inr (PredMalformed success) \<Rightarrow> defaultPredictions
      | Inr (PredArray xs) \<Rightarrow> map loadPredictions_map_000 xs
      | Inr PredOther \<Rightarrow> defaultPredictions)"

text \<open>
  \<^verbatim>\<open>loadPredictions\<close> of part_001: an array is mapped with the defaulting function,
  an object whose \<^verbatim>\<open>predictions\<close> is an array with the copying one, whatever its
  \<^verbatim>\<open>success\<close> flag.
\<close>

definition loadPredictions_001 :: "js_error + pred_response \<Rightarrow> chart_point list" where
  "loadPredictions_001 api =
     (case api of
        Inl e \<Rightarrow> defaultPredictions
      | Inr (PredArray xs) \<Rightarrow> map loadPredictions_map_001_array xs
      | Inr (PredEnvelope success (Some xs)) \<Rightarrow> map loadPredictions_map_001_envelope xs
      | Inr (PredEnvelope success None) \<Rightarrow> defaultPredictions
      | Inr (PredMalformed success) \<Rightarrow> defaultPredictions
      | Inr PredOther \<Rightarrow> defaultPredictions)"

section \<open>The mock generators of the API module (part_001)\<close>

text \<open>
  \<^verbatim>\<open>generateMockPredictions(days)\<close>: the loop runs for \<open>i = 1, ..., days\<close>; each round
  draws seven values, in the order of the object literal. \<open>today\<close> is the calendar
  day of \<^verbatim>\<open>new Date()\<close>; \<open>days\<close> is an integer.
\<close>

fun mockPredictions_loop :: "int \<Rightarrow> nat \<Rightarrow> nat \<Rightarrow> rng \<Rightarrow> pred_item list \<times> rng" where
  "mockPredictions_loop today i 0 g = ([], g)"
| "mockPredictions_loop today i (Suc k) g =
     (let (r1, g1) = Math_random g;
          (r2, g2) = Math_random g1;
          (r3, g3) = Math_random g2;
          (r4, g4) = Math_random g3;
          (r5, g5) = Math_random g4;
          (r6, g6) = Math_random g5;
          (r7, g7) = Math_random g6;
          p = \<lparr> p_date = Some (LocaleDate (today + int i)),
                p_day = None,
                predicted = floor_scaled r1 20 70,
                p_value = Undefined,
                positive_score = floor_scaled r5 20 70,
                negative_score = floor_scaled r6 15 5,
                neutral_score = floor_scaled r7 15 5,
                upper = floor_scaled r4 10 80,
                upper_bound = Undefined,
                lower = floor_scaled r3 10 65,
                lower_bound = Undefined,
                p_confidence = floor_scaled r2 20 70,
                model_source = None \<rparr>;
          (ps, g') = mockPredictions_loop today (Suc i) k g7
      in (p # ps, g'))"

definition generateMockPredictions :: "int \<Rightarrow> rng \<Rightarrow> int \<Rightarrow> pred_item list \<times> rng" where
  "generateMockPredictions today g days = mockPredictions_loop today 1 (nat days) g"

text \<open>One element of the historical series, as \<^verbatim>\<open>generateMockHistoricalData\<close> writes it.\<close>

record bucket =
  b_date :: label
  b_positive :: jsval
  b_negative :: jsval
  b_neutral :: jsval
  total :: jsval

text \<open>
  \<^verbatim>\<open>generateMockHistoricalData(days)\<close>: the loop runs for \<open>i = days, ..., 1\<close>, so the
  argument \<open>i\<close> below is the number of rounds left.
\<close>

fun mockHistorical_loop :: "int \<Rightarrow> nat \<Rightarrow> rng \<Rightarrow> bucket list \<times> rng" where
  "mockHistorical_loop today 0 g = ([], g)"
| "mockHistorical_loop today (Suc k) g =
     (let (r1, g1) = Math_random g;
          (r2, g2) = Math_random g1;
          (r3, g3) = Math_random g2;
          (r4, g4) = Math_random g3;
          b = \<lparr> b_date = LocaleDate (today - int (Suc k)),
                b_positive = floor_scaled r1 30 60,
                b_negative = floor_scaled r2 15 5,
                b_neutral = floor_scaled r3 15 5,
                total = floor_scaled r4 1000 1000 \<rparr>;
          (bs, g') = mockHistorical_loop today k g4
      in (b # bs, g'))"

definition generateMockHistoricalData :: "int \<Rightarrow> rng \<Rightarrow> int \<Rightarrow> bucket list \<times> rng" where
  "generateMockHistoricalData today g days = mockHistorical_loop today (nat days) g"

section \<open>Real-time items\<close>

text \<open>The nested \<^verbatim>\<open>scores\<close> object of a raw classifier item.\<close>

record scores_obj =
  s_positive :: jsval
  s_negative :: jsval
  s_neutral :: jsval

text \<open>
  A raw item of the real-time payload: the keys that \<^verbatim>\<open>fetchRealtime\<close> reads and
  that the mock generator of the API module writes.
\<close>

record rt_item =
  timestamp :: "label option"
  positive :: jsval
  pos :: jsval
  negative :: jsval
  neg :: jsval
  neutral :: jsval
  neu :: jsval
  scores :: "scores_obj option"
  sentiment :: "string option"
  confidence :: jsval
  source :: "string option"

text \<open>An entry of the dashboard's \<^verbatim>\<open>realTimeData\<close> list.\<close>

record feed_point =
  f_timestamp :: label
  f_positive :: jsval
  f_negative :: jsval
  f_neutral :: jsval

text \<open>
  \<^verbatim>\<open>Math.random() > 0.3 ? 'positive' : Math.random() > 0.5 ? 'negative' : 'neutral'\<close>:
  the second value is drawn only when the first test fails.
\<close>

definition pick_sentiment :: "rng \<Rightarrow> string \<times> rng" where
  "pick_sentiment g =
     (let (r, g1) = Math_random g
      in if r > 3 / 10 then (''positive'', g1)
         else (let (r', g2) = Math_random g1
               in if r' > 1 / 2 then (''negative'', g2) else (''neutral'', g2)))"

text \<open>Indexing the four source names; an index out of range reads undefined.\<close>

definition pick_source :: "real \<Rightarrow> string option" where
  "pick_source r =
     (let names = [''twitter'', ''facebook'', ''reviews'', ''surveys''];
          j = \<lfloor>r * 4\<rfloor>
      in if 0 \<le> j \<and> j < 4 then Some (names ! nat j) else None)"

text \<open>
  \<^verbatim>\<open>generateMockRealtimeData(limit)\<close> of the API module: the loop runs for
  \<open>i = limit, ..., 1\<close> and stamps the item with \<^verbatim>\<open>setMinutes(getMinutes() - i)\<close> on
  a copy of \<open>now\<close>, in the time zone \<open>tz\<close> of the host. The scores are the exact
  values of the expressions that the source rounds to doubles.
\<close>

fun mockRealtime_loop :: "timezone \<Rightarrow> int \<Rightarrow> nat \<Rightarrow> rng \<Rightarrow> rt_item list \<times> rng" where
  "mockRealtime_loop tz now 0 g = ([], g)"
| "mockRealtime_loop tz now (Suc k) g =
     (let (r1, g1) = Math_random g;
          (r2, g2) = Math_random g1;
          (r3, g3) = Math_random g2;
          (s, g4) = pick_sentiment g3;
          (r5, g5) = Math_random g4;
          (r6, g6) = Math_random g5;
          it = \<lparr> timestamp = Some (LocaleTime (setMinutes_back tz now (int (Suc k)))),
                 positive = Num (r1 * 40 + 50),
                 pos = Undefined,
                 negative = Num (r2 * 20 + 5),
                 neg = Undefined,
                 neutral = Num (r3 * 20 + 5),
                 neu = Undefined,
                 scores = None,
                 sentiment = Some s,
                 confidence = Num (r5 * (3 / 10) + 7 / 10),
                 source = pick_source r6 \<rparr>;
          (its, g') = mockRealtime_loop tz now k g6
      in (it # its, g'))"

definition generateMockRealtimeData_001 ::
  "timezone \<Rightarrow> int \<Rightarrow> rng \<Rightarrow> int \<Rightarrow> rt_item list \<times> rng" where
  "generateMockRealtimeData_001 tz now g limit = mockRealtime_loop tz now (nat limit) g"

section \<open>The API module\<close>

text \<open>
  What a caller can tell about the body of a real-time response: an object whose
  \<^verbatim>\<open>data\<close> is an array, an array, an object whose \<^verbatim>\<open>data\<close> is truthy but no array,
  or anything else. An element of an array is \<open>None\<close> when it is null.
\<close>

datatype rt_response =
    RtEnvelope "rt_item option list"
  | RtArray "rt_item option list"
  | RtBadData
  | RtOther

text \<open>The body of a historical response: \<^verbatim>\<open>{success, data}\<close>, an array, or other.\<close>

datatype hist_response =
    HistEnvelope bool "bucket list option"
  | HistArray "bucket list"
  | HistOther

text \<open>
  \<^verbatim>\<open>getRealtimeApi\<close> of src/api.js. The parameter \<open>http\<close> is the outcome of
  \<^verbatim>\<open>api.get('/api/sentiment/realtime', {params})\<close>: the body of the response, or the
  error with which the request is rejected. Nothing catches the rejection.
\<close>

definition getRealtimeApi_src ::
  "(string \<times> int \<Rightarrow> js_error + rt_response) \<Rightarrow> string \<Rightarrow> int \<Rightarrow> js_error + rt_response" where
  "getRealtimeApi_src http src limit =
     (case http (src, limit) of Inl e \<Rightarrow> Inl e | Inr body \<Rightarrow> Inr body)"

text \<open>\<^verbatim>\<open>getRealtimeApi\<close> of the API module of part_001, with its \<^verbatim>\<open>catch\<close>.\<close>

definition getRealtimeApi_001 ::
  "(string \<times> int \<Rightarrow> js_error + rt_response) \<Rightarrow> timezone \<Rightarrow> int \<Rightarrow> rng \<Rightarrow> string \<Rightarrow> int
     \<Rightarrow> (js_error + rt_response) \<times> rng" where
  "getRealtimeApi_001 http tz now g src limit =
     (case http (src, limit) of
        Inr body \<Rightarrow> (Inr body, g)
      | Inl e \<Rightarrow>
          (let (items, g') = generateMockRealtimeData_001 tz now g limit
           in (Inr (RtEnvelope (map Some items)), g')))"

text \<open>\<^verbatim>\<open>getPredictionsApi\<close> of part_001.\<close>

definition getPredictionsApi_001 ::
  "(int \<Rightarrow> js_error + pred_response) \<Rightarrow> int \<Rightarrow> rng \<Rightarrow> int
     \<Rightarrow> (js_error + pred_response) \<times> rng" where
  "getPredictionsApi_001 http today g days =
     (case http days of
        Inr body \<Rightarrow> (Inr body, g)
      | Inl e \<Rightarrow>
          (let (ps, g') = generateMockPredictions today g days
           in (Inr (PredEnvelope False (Some ps)), g')))"

text \<open>\<^verbatim>\<open>getHistoricalApi\<close> of part_001.\<close>

definition getHistoricalApi_001 ::
  "(int \<times> string \<Rightarrow> js_error + hist_response) \<Rightarrow> int \<Rightarrow> rng \<Rightarrow> int \<Rightarrow> string
     \<Rightarrow> (js_error + hist_response) \<times> rng" where
  "getHistoricalApi_001 http today g days src =
     (case http (days, src) of
        Inr body \<Rightarrow> (Inr body, g)
      | Inl e \<Rightarrow>
          (let (bs, g') = generateMockHistoricalData today g days
           in (Inr (HistEnvelope False (Some bs)), g')))"

section \<open>The dashboard's real-time feed\<close>

text \<open>\<^verbatim>\<open>item.scores?.positive\<close>: undefined when \<^verbatim>\<open>scores\<close> is missing or null.\<close>

definition scores_get :: "scores_obj option \<Rightarrow> (scores_obj \<Rightarrow> jsval) \<Rightarrow> jsval" where
  "scores_get so field = (case so of None \<Rightarrow> Undefined | Some sc \<Rightarrow> field sc)"

text \<open>
  \<^verbatim>\<open>Math.random() * 100\<close>, given the value drawn (the exact product, for the double
  that the source rounds it to).
\<close>

definition random_percent :: "real \<Rightarrow> jsval" where
  "random_percent r = Num (r * 100)"

text \<open>
  \<^verbatim>\<open>a ?? b ?? (c ?? Math.random() * 100)\<close>, the field resolution of \<^verbatim>\<open>fetchRealtime\<close>
  in part_000: \<^verbatim>\<open>Math.random\<close> is called only when the three operands are nullish.
\<close>

definition resolve_field_000 :: "jsval \<Rightarrow> jsval \<Rightarrow> jsval \<Rightarrow> rng \<Rightarrow> jsval \<times> rng" where
  "resolve_field_000 a b c g =
     (if \<not> nullish a then (a, g)
      else if \<not> nullish b then (b, g)
      else if \<not> nullish c then (c, g)
      else (let (r, g') = Math_random g in (random_percent r, g')))"

text \<open>\<^verbatim>\<open>a ?? b ?? Math.random() * 100\<close>, the field resolution of part_001.\<close>

definition resolve_field_001 :: "jsval \<Rightarrow> jsval \<Rightarrow> rng \<Rightarrow> jsval \<times> rng" where
  "resolve_field_001 a b g =
     (if \<not> nullish a then (a, g)
      else if \<not> nullish b then (b, g)
      else (let (r, g') = Math_random g in (random_percent r, g')))"

text \<open>The arrow functions that \<^verbatim>\<open>fetchRealtime\<close> maps over the items.\<close>

definition map_item_000 :: "int \<Rightarrow> rt_item \<Rightarrow> rng \<Rightarrow> feed_point \<times> rng" where
  "map_item_000 now item g =
     (let (p, g1) = resolve_field_000 (positive item) (pos item)
                      (scores_get (scores item) s_positive) g;
          (n, g2) = resolve_field_000 (negative item) (neg item)
                      (scores_get (scores item) s_negative) g1;
          (u, g3) = resolve_field_000 (neutral item) (neu item)
                      (scores_get (scores item) s_neutral) g2
      in (\<lparr> f_timestamp = label_or (timestamp item) (LocaleTime now),
             f_positive = p, f_negative = n, f_neutral = u \<rparr>, g3))"

definition map_item_001 :: "int \<Rightarrow> rt_item \<Rightarrow> rng \<Rightarrow> feed_point \<times> rng" where
  "map_item_001 now item g =
     (let (p, g1) = resolve_field_001 (positive item) (pos item) g;
          (n, g2) = resolve_field_001 (negative item) (neg item) g1;
          (u, g3) = resolve_field_001 (neutral item) (neu item) g2
      in (\<lparr> f_timestamp = label_or (timestamp item) (LocaleTime now),
             f_positive = p, f_negative = n, f_neutral = u \<rparr>, g3))"

text \<open>
  \<^verbatim>\<open>xs.map(f)\<close> inside a \<^verbatim>\<open>try\<close>: reading a property of a null element throws a
  TypeError, which ends the mapping.
\<close>

fun map_items ::
  "(rt_item \<Rightarrow> rng \<Rightarrow> feed_point \<times> rng) \<Rightarrow> rt_item option list \<Rightarrow> rng
     \<Rightarrow> (js_error + feed_point list) \<times> rng" where
  "map_items f [] g = (Inr [], g)"
| "map_items f (None # xs) g = (Inl TypeError, g)"
| "map_items f (Some x # xs) g =
     (let (p, g1) = f x g
      in case map_items f xs g1 of
           (Inl e, g2) \<Rightarrow> (Inl e, g2)
         | (Inr ps, g2) \<Rightarrow> (Inr (p # ps), g2))"

text \<open>
  \<^verbatim>\<open>generateMockRealtimeData()\<close> of the dashboard of part_000:
  \<^verbatim>\<open>Array.from({length: 6}, (_, i) => ...)\<close>, the element \<open>i\<close> stamped \<open>i\<close> minutes
  before \<open>now\<close>. The clock readings of one call are taken as one instant, and the
  scores are the exact values of the expressions that the source rounds to doubles.
\<close>

fun mockFeed_loop :: "int \<Rightarrow> nat \<Rightarrow> nat \<Rightarrow> rng \<Rightarrow> feed_point list \<times> rng" where
  "mockFeed_loop now i 0 g = ([], g)"
| "mockFeed_loop now i (Suc k) g =
     (let (r1, g1) = Math_random g;
          (r2, g2) = Math_random g1;
          (r3, g3) = Math_random g2;
          p = \<lparr> f_timestamp = LocaleTime (now - int i * 60000),
                f_positive = Num (r1 * 40 + 50),
                f_negative = Num (r2 * 20 + 5),
                f_neutral = Num (r3 * 20 + 5) \<rparr>;
          (ps, g') = mockFeed_loop now (Suc i) k g3
      in (p # ps, g'))"

definition generateMockRealtimeData_000 :: "int \<Rightarrow> rng \<Rightarrow> feed_point list \<times> rng" where
  "generateMockRealtimeData_000 now g = mockFeed_loop now 0 6 g"






section \<open>Predicates used in the statements\<close>

text \<open>
  The invariant that the data model of the specification states for a sentiment
  score: the three components sum to 100 within 0.5 and each lies in [0, 100].
\<close>

definition spec_score_invariant :: "jsval \<Rightarrow> jsval \<Rightarrow> jsval \<Rightarrow> bool" where
  "spec_score_invariant p n u =
     (case (p, n, u) of
        (Num a, Num b, Num c) \<Rightarrow>
          \<bar>a + b + c - 100\<bar> \<le> 1 / 2
          \<and> 0 \<le> a \<and> a \<le> 100 \<and> 0 \<le> b \<and> b \<le> 100 \<and> 0 \<le> c \<and> c \<le> 100
      | _ \<Rightarrow> False)"

text \<open>
  The resolution order in the words of the specification: the sources are tried in
  order and the first one that is present (not nullish) wins.
\<close>

fun first_present :: "jsval list \<Rightarrow> jsval option" where
  "first_present [] = None"
| "first_present (v # vs) = (if nullish v then first_present vs else Some v)"


text \<open>
  The ranges of the three scores of a synthetic record, with their end points (the
  comments of the generators give 50-90 and 5-25).
\<close>

definition mock_score_ranges :: "jsval \<Rightarrow> jsval \<Rightarrow> jsval \<Rightarrow> bool" where
  "mock_score_ranges p n u =
     (case (p, n, u) of
        (Num a, Num b, Num c) \<Rightarrow>
          50 \<le> a \<and> a \<le> 90 \<and> 5 \<le> b \<and> b \<le> 25 \<and> 5 \<le> c \<and> c \<le> 25
      | _ \<Rightarrow> False)"

text \<open>
  The value that the order of the sources gives a field: the first present source,
  and only when no source is present the random value made from draw \<open>k\<close> of the
  generator. \<open>draws\<close> is the number of values that resolving the field draws.
\<close>

definition resolved :: "jsval list \<Rightarrow> rng \<Rightarrow> nat \<Rightarrow> jsval" where
  "resolved sources g k =
     (case first_present sources of Some v \<Rightarrow> v | None \<Rightarrow> random_percent (g k))"

definition draws :: "jsval list \<Rightarrow> nat" where
  "draws sources = (case first_present sources of Some v \<Rightarrow> 0 | None \<Rightarrow> 1)"

text \<open>
  A mapped field is a copy of the first present source, or, when no source is
  present, a number in [0, 100].
\<close>

definition copied_or_random :: "jsval list \<Rightarrow> jsval \<Rightarrow> bool" where
  "copied_or_random sources out =
     (case first_present sources of
        Some v \<Rightarrow> out = v
      | None \<Rightarrow> (case out of Num x \<Rightarrow> 0 \<le> x \<and> x \<le> 100 | _ \<Rightarrow> False))"

text \<open>
  The wall clock of the host is steady over the \<open>limit\<close> minutes before \<open>now\<close>:
  setting the minutes back by \<open>i\<close> gives the instant \<open>i\<close> minutes earlier, as it does
  when the offset to UTC does not change in between.
\<close>

definition wall_clock_steady :: "timezone \<Rightarrow> int \<Rightarrow> int \<Rightarrow> bool" where
  "wall_clock_steady tz now limit =
     (\<forall>i. 1 \<le> i \<and> i \<le> limit \<longrightarrow> setMinutes_back tz now i = now - i * 60000)"

section \<open>Concrete inputs\<close>

text \<open>A generator that returns 0 forever, and one that returns \<open>v\<close> at call \<open>k\<close> only.\<close>

definition rng_zero :: rng where
  "rng_zero = (\<lambda>n. 0)"

definition rng_spike :: "nat \<Rightarrow> real \<Rightarrow> rng" where
  "rng_spike k v = (\<lambda>n. if n = k then v else 0)"

text \<open>A generator that returns 0 for the first \<open>k\<close> calls and \<open>v\<close> afterwards.\<close>

definition rng_step :: "nat \<Rightarrow> real \<Rightarrow> rng" where
  "rng_step k v = (\<lambda>n. if n < k then 0 else v)"

text \<open>
  A host on UTC, and a host whose clocks go from UTC-5 to UTC-4 at the instant 0:
  the wall-clock hour that the change skips is read with the offset before the
  change, as the language prescribes.
\<close>

definition utc_zone :: timezone where
  "utc_zone = \<lparr> local_of_utc = (\<lambda>t. t), utc_of_local = (\<lambda>w. w) \<rparr>"

definition spring_forward_zone :: timezone where
  "spring_forward_zone =
     \<lparr> local_of_utc = (\<lambda>t. if t < 0 then t - 18000000 else t - 14400000),
       utc_of_local = (\<lambda>w. if w < - 14400000 then w + 18000000 else w + 14400000) \<rparr>"

text \<open>An HTTP layer whose every request is rejected.\<close>

definition http_down :: "'a \<Rightarrow> js_error + 'b" where
  "http_down request = Inl (RequestFailed ''Network Error'')"

text \<open>An HTTP layer that answers every request with the same body.\<close>

definition http_fixed :: "'b \<Rightarrow> 'a \<Rightarrow> js_error + 'b" where
  "http_fixed body request = Inr body"

text \<open>A prediction item that holds \<^verbatim>\<open>predicted\<close> and nothing else.\<close>

definition bare_prediction :: "real \<Rightarrow> pred_item" where
  "bare_prediction x =
     \<lparr> p_date = None, p_day = None, predicted = Num x, p_value = Undefined,
       positive_score = Undefined, negative_score = Undefined, neutral_score = Undefined,
       upper = Undefined, upper_bound = Undefined, lower = Undefined,
       lower_bound = Undefined, p_confidence = Undefined, model_source = None \<rparr>"

text \<open>A fetched item whose three full-name fields are present and sum to 170.\<close>

definition overshoot_item :: rt_item where
  "overshoot_item =
     \<lparr> timestamp = Some (Text ''10:00:00''), positive = Num 150, pos = Undefined,
       negative = Num 10, neg = Undefined, neutral = Num 10, neu = Undefined,
       scores = None, sentiment = None, confidence = Undefined, source = None \<rparr>"

text \<open>A fetched item that holds its three scores in the nested object only.\<close>

definition nested_only_item :: rt_item where
  "nested_only_item =
     \<lparr> timestamp = Some (Text ''10:00:00''), positive = Undefined, pos = Undefined,
       negative = Undefined, neg = Undefined, neutral = Undefined, neu = Undefined,
       scores = Some \<lparr> s_positive = Num 80, s_negative = Num 15, s_neutral = Num 5 \<rparr>,
       sentiment = None, confidence = Undefined, source = None \<rparr>"

text \<open>
  A historical body of six buckets, the first six of the series that the dashboards
  hold as default.
\<close>

definition six_buckets :: "bucket list" where
  "six_buckets =
     [\<lparr> b_date = Text ''10/18'', b_positive = Num 65, b_negative = Num 20, b_neutral = Num 15,
        total = Num 1250 \<rparr>,
      \<lparr> b_date = Text ''10/19'', b_positive = Num 70, b_negative = Num 18, b_neutral = Num 12,
        total = Num 1450 \<rparr>,
      \<lparr> b_date = Text ''10/20'', b_positive = Num 62, b_negative = Num 25, b_neutral = Num 13,
        total = Num 1380 \<rparr>,
      \<lparr> b_date = Text ''10/21'', b_positive = Num 75, b_negative = Num 15, b_neutral = Num 10,
        total = Num 1620 \<rparr>,
      \<lparr> b_date = Text ''10/22'', b_positive = Num 68, b_negative = Num 22, b_neutral = Num 10,
        total = Num 1540 \<rparr>,
      \<lparr> b_date = Text ''10/23'', b_positive = Num 72, b_negative = Num 18, b_neutral = Num 10,
        total = Num 1680 \<rparr>]"

section \<open>Properties\<close>

lemma truthy_Num: "truthy v \<Longrightarrow> \<exists>p. v = Num p \<and> p \<noteq> 0"
  by (cases v) simp_all

text \<open>
  C10 (amended). For an item whose \<^verbatim>\<open>predicted\<close> is a truthy number and which has
  none of \<^verbatim>\<open>upper\<close>, \<^verbatim>\<open>lower\<close>, \<^verbatim>\<open>upper_bound\<close>, \<^verbatim>\<open>lower_bound\<close>, the mappings that
  default the bounds produce upper = predicted + 3 and lower = predicted - 3, so that
  lower \<le> predicted \<le> upper holds of the mapped point: these are the mapping of
  the dashboard of part_000, applied to the predictions of a successful envelope and
  to an array, and the mapping that the dashboard of part_001 applies to an array.
  The mapping that the dashboard of part_001 applies to the predictions of an
  envelope copies \<^verbatim>\<open>date\<close>, \<^verbatim>\<open>predicted\<close>, \<^verbatim>\<open>upper\<close> and \<^verbatim>\<open>lower\<close> as they are, so
  that the bounds of such an item stay undefined.
\<close>

theorem loadPredictions_default_band:
  assumes "truthy (predicted d)"
    and "upper d = Undefined" and "upper_bound d = Undefined"
    and "lower d = Undefined" and "lower_bound d = Undefined"
  shows "\<exists>p. predicted d = Num p
           \<and> c_predicted (loadPredictions_map_000 d) = Num p
           \<and> c_upper (loadPredictions_map_000 d) = Num (p + 3)
           \<and> c_lower (loadPredictions_map_000 d) = Num (p - 3)
           \<and> js_le (c_lower (loadPredictions_map_000 d)) (c_predicted (loadPredictions_map_000 d))
           \<and> js_le (c_predicted (loadPredictions_map_000 d)) (c_upper (loadPredictions_map_000 d))
           \<and> c_predicted (loadPredictions_map_001_array d) = Num p
           \<and> c_upper (loadPredictions_map_001_array d) = Num (p + 3)
           \<and> c_lower (loadPredictions_map_001_array d) = Num (p - 3)
           \<and> js_le (c_lower (loadPredictions_map_001_array d))
                (c_predicted (loadPredictions_map_001_array d))
           \<and> js_le (c_predicted (loadPredictions_map_001_array d))
                (c_upper (loadPredictions_map_001_array d))
           \<and> c_predicted (loadPredictions_map_001_envelope d) = Num p
           \<and> c_upper (loadPredictions_map_001_envelope d) = Undefined
           \<and> c_lower (loadPredictions_map_001_envelope d) = Undefined
           \<and> loadPredictions_000 (Inr (PredEnvelope True (Some ds)))
               = map loadPredictions_map_000 ds
           \<and> loadPredictions_000 (Inr (PredArray ds)) = map loadPredictions_map_000 ds
           \<and> loadPredictions_001 (Inr (PredArray ds)) = map loadPredictions_map_001_array ds
           \<and> loadPredictions_001 (Inr (PredEnvelope success (Some ds)))
               = map loadPredictions_map_001_envelope ds"
proof -
  from assms(1) obtain p where p: "predicted d = Num p" "p \<noteq> 0"
    using truthy_Num by blast
  with assms(2-5) show ?thesis
    by (simp add: loadPredictions_map_000_def loadPredictions_map_001_array_def
        loadPredictions_map_001_envelope_def loadPredictions_000_def loadPredictions_001_def
        js_or_def js_add_def js_sub_def js_le_def)
qed

theorem loadPredictions_default_band_witness:
  "truthy (predicted (bare_prediction 80))
   \<and> c_upper (loadPredictions_map_000 (bare_prediction 80)) = Num 83
   \<and> c_lower (loadPredictions_map_000 (bare_prediction 80)) = Num 77
   \<and> c_upper (loadPredictions_map_001_array (bare_prediction 80)) = Num 83
   \<and> c_lower (loadPredictions_map_001_array (bare_prediction 80)) = Num 77
   \<and> js_le (c_lower (loadPredictions_map_000 (bare_prediction 80)))
        (c_predicted (loadPredictions_map_000 (bare_prediction 80)))
   \<and> c_upper (loadPredictions_map_001_envelope (bare_prediction 80)) = Undefined"
proof -
  have t: "truthy (predicted (bare_prediction 80))"
    by (simp add: bare_prediction_def)
  have u: "upper (bare_prediction 80) = Undefined" "upper_bound (bare_prediction 80) = Undefined"
    "lower (bare_prediction 80) = Undefined" "lower_bound (bare_prediction 80) = Undefined"
    by (simp_all add: bare_prediction_def)
  have p: "predicted (bare_prediction 80) = Num 80"
    by (simp add: bare_prediction_def)
  from loadPredictions_default_band [OF t u] p t show ?thesis
    by (auto simp: js_le_def)
qed

text \<open>
  C10 as stated fails on the dashboard of part_001: an envelope whose one prediction
  holds \<^verbatim>\<open>predicted: 80\<close> and no bound is mapped to a point whose upper and lower
  are undefined, so that neither lower \<le> predicted nor predicted \<le> upper holds.
\<close>

theorem envelope_bounds_counterexample:
  "loadPredictions_001 (Inr (PredEnvelope True (Some [bare_prediction 80])))
     = [\<lparr> c_date = None, c_predicted = Num 80, c_upper = Undefined, c_lower = Undefined,
          c_confidence = Undefined \<rparr>]
   \<and> c_upper (hd (loadPredictions_001 (Inr (PredEnvelope True (Some [bare_prediction 80])))))
       \<noteq> Num 83
   \<and> \<not> js_le (c_predicted (hd (loadPredictions_001
                 (Inr (PredEnvelope True (Some [bare_prediction 80]))))))
            (c_upper (hd (loadPredictions_001
                 (Inr (PredEnvelope True (Some [bare_prediction 80]))))))
   \<and> \<not> js_le (c_lower (hd (loadPredictions_001
                 (Inr (PredEnvelope True (Some [bare_prediction 80]))))))
            (c_predicted (hd (loadPredictions_001
                 (Inr (PredEnvelope True (Some [bare_prediction 80]))))))"
  by (simp add: loadPredictions_001_def loadPredictions_map_001_envelope_def
      bare_prediction_def js_le_def)

subsection \<open>Random draws\<close>

lemma valid_rng_zero: "valid_rng rng_zero"
  by (simp add: valid_rng_def rng_zero_def)

lemma valid_rng_spike: "0 \<le> v \<Longrightarrow> v < 1 \<Longrightarrow> valid_rng (rng_spike k v)"
  by (simp add: valid_rng_def rng_spike_def)

lemma setMinutes_back_utc: "setMinutes_back utc_zone t i = t - i * 60000"
  by (simp add: setMinutes_back_def utc_zone_def)

lemma Math_random_valid:
  "valid_rng g \<Longrightarrow> Math_random g = (r, g') \<Longrightarrow> 0 \<le> r \<and> r < 1 \<and> valid_rng g'"
  by (auto simp: Math_random_def valid_rng_def)

lemma floor_scaled_range:
  assumes "0 \<le> r" "r < 1" "0 < k"
  shows "\<exists>x. floor_scaled r (of_int k) c = Num x \<and> c \<le> x \<and> x \<le> c + of_int k - 1"
proof -
  have "0 \<le> r * of_int k" using assms by simp
  then have lo: "0 \<le> real_of_int \<lfloor>r * of_int k\<rfloor>" by simp
  have "r * of_int k < of_int k" using assms by simp
  then have "\<lfloor>r * real_of_int k\<rfloor> < k" by (simp add: floor_less_iff)
  then have "\<lfloor>r * real_of_int k\<rfloor> \<le> k - 1" by simp
  then have hi: "real_of_int \<lfloor>r * real_of_int k\<rfloor> \<le> real_of_int k - 1"
    by (metis of_int_le_iff of_int_diff of_int_1)
  from lo hi show ?thesis by (simp add: floor_scaled_def)
qed

subsection \<open>The synthetic predictions\<close>

lemma mockPredictions_loop_length:
  "length (fst (mockPredictions_loop today i k g)) = k"
  by (induction k arbitrary: i g) (simp_all add: split_def Let_def)

lemma mockPredictions_loop_date:
  "j < k \<Longrightarrow>
   p_date (fst (mockPredictions_loop today i k g) ! j) = Some (LocaleDate (today + int i + int j))"
proof (induction k arbitrary: i g j)
  case 0
  then show ?case by simp
next
  case (Suc k)
  show ?case
  proof (cases j)
    case 0
    then show ?thesis by (simp add: split_def Let_def)
  next
    case (Suc j')
    with Suc.prems have "j' < k" by simp
    from Suc.IH [OF this] Suc show ?thesis by (simp add: split_def Let_def)
  qed
qed

lemma mockPredictions_loop_ranges:
  "valid_rng g \<Longrightarrow> p \<in> set (fst (mockPredictions_loop today i k g)) \<Longrightarrow>
   \<exists>x lo up. predicted p = Num x \<and> lower p = Num lo \<and> upper p = Num up
     \<and> 70 \<le> x \<and> x \<le> 89 \<and> 65 \<le> lo \<and> lo \<le> 74 \<and> 80 \<le> up \<and> up \<le> 89"
proof (induction k arbitrary: i g)
  case 0
  then show ?case by simp
next
  case (Suc k)
  obtain r1 g1 where d1: "Math_random g = (r1, g1)" by (cases "Math_random g")
  obtain r2 g2 where d2: "Math_random g1 = (r2, g2)" by (cases "Math_random g1")
  obtain r3 g3 where d3: "Math_random g2 = (r3, g3)" by (cases "Math_random g2")
  obtain r4 g4 where d4: "Math_random g3 = (r4, g4)" by (cases "Math_random g3")
  obtain r5 g5 where d5: "Math_random g4 = (r5, g5)" by (cases "Math_random g4")
  obtain r6 g6 where d6: "Math_random g5 = (r6, g6)" by (cases "Math_random g5")
  obtain r7 g7 where d7: "Math_random g6 = (r7, g7)" by (cases "Math_random g6")
  note v1 = Math_random_valid [OF Suc.prems(1) d1]
  note v2 = Math_random_valid [OF _ d2]
  note v3 = Math_random_valid [OF _ d3]
  note v4 = Math_random_valid [OF _ d4]
  note v5 = Math_random_valid [OF _ d5]
  note v6 = Math_random_valid [OF _ d6]
  note v7 = Math_random_valid [OF _ d7]
  have g7: "valid_rng g7" and r1: "0 \<le> r1" "r1 < 1" and r3: "0 \<le> r3" "r3 < 1"
    and r4: "0 \<le> r4" "r4 < 1"
    using v1 v2 v3 v4 v5 v6 v7 by blast+
  from Suc.prems(2) d1 d2 d3 d4 d5 d6 d7
  consider (head) "predicted p = floor_scaled r1 20 70" "lower p = floor_scaled r3 10 65"
      "upper p = floor_scaled r4 10 80"
    | (tail) "p \<in> set (fst (mockPredictions_loop today (Suc i) k g7))"
    by (auto simp: split_def Let_def)
  then show ?case
  proof cases
    case head
    from floor_scaled_range [OF r1, of 20 70] floor_scaled_range [OF r3, of 10 65]
      floor_scaled_range [OF r4, of 10 80] head
    show ?thesis by auto
  next
    case tail
    with Suc.IH [OF g7] show ?thesis by blast
  qed
qed

text \<open>
  C2 (amended). For every days \<ge> 1 the synthetic forecast has exactly days points;
  point j (from 0) is dated j + 1 days after the day of the request, so the dates
  increase strictly from the day after the request; every point has
  70 \<le> predicted \<le> 89 (hence 0 \<le> predicted \<le> 100), 65 \<le> lower \<le> 74 and
  80 \<le> upper \<le> 89 (hence lower < upper). The three values are drawn independently:
  nothing places predicted between lower and upper.
\<close>

theorem generateMockPredictions_shape:
  assumes "valid_rng g" and "1 \<le> days"
  shows "length (fst (generateMockPredictions today g days)) = nat days
       \<and> (\<forall>j < nat days. p_date (fst (generateMockPredictions today g days) ! j)
             = Some (LocaleDate (today + 1 + int j)))
       \<and> (\<forall>p \<in> set (fst (generateMockPredictions today g days)).
             \<exists>x lo up. predicted p = Num x \<and> lower p = Num lo \<and> upper p = Num up
               \<and> 70 \<le> x \<and> x \<le> 89 \<and> 65 \<le> lo \<and> lo \<le> 74 \<and> 80 \<le> up \<and> up \<le> 89
               \<and> lo < up \<and> 0 \<le> x \<and> x \<le> 100)"
proof (intro conjI allI impI ballI)
  show "length (fst (generateMockPredictions today g days)) = nat days"
    by (simp add: generateMockPredictions_def mockPredictions_loop_length)
next
  fix j assume "j < nat days"
  then show "p_date (fst (generateMockPredictions today g days) ! j)
               = Some (LocaleDate (today + 1 + int j))"
    by (simp add: generateMockPredictions_def mockPredictions_loop_date)
next
  fix p assume "p \<in> set (fst (generateMockPredictions today g days))"
  with assms(1) have "\<exists>x lo up. predicted p = Num x \<and> lower p = Num lo \<and> upper p = Num up
     \<and> 70 \<le> x \<and> x \<le> 89 \<and> 65 \<le> lo \<and> lo \<le> 74 \<and> 80 \<le> up \<and> up \<le> 89"
    unfolding generateMockPredictions_def by (rule mockPredictions_loop_ranges)
  then show "\<exists>x lo up. predicted p = Num x \<and> lower p = Num lo \<and> upper p = Num up
               \<and> 70 \<le> x \<and> x \<le> 89 \<and> 65 \<le> lo \<and> lo \<le> 74 \<and> 80 \<le> up \<and> up \<le> 89
               \<and> lo < up \<and> 0 \<le> x \<and> x \<le> 100"
    by force
qed

theorem generateMockPredictions_shape_witness:
  "valid_rng rng_zero \<and> (1::int) \<le> 2
   \<and> length (fst (generateMockPredictions 0 rng_zero 2)) = 2
   \<and> p_date (fst (generateMockPredictions 0 rng_zero 2) ! 1) = Some (LocaleDate 2)
   \<and> predicted (fst (generateMockPredictions 0 rng_zero 2) ! 1) = Num 70"
proof -
  have d: "(1::int) \<le> 2" by simp
  have "predicted (fst (generateMockPredictions 0 rng_zero 2) ! 1) = Num 70"
    by (simp add: generateMockPredictions_def rng_zero_def Math_random_def floor_scaled_def
        eval_nat_numeral)
  with generateMockPredictions_shape [OF valid_rng_zero d, of 0] valid_rng_zero
  show ?thesis by simp
qed

text \<open>
  C2 as stated fails on the synthetic path: when the first draw is 0 and the third
  is 0.9, the single point of a one-day forecast has predicted = 70 and lower = 74.
\<close>

theorem generateMockPredictions_band_counterexample:
  "valid_rng (rng_spike 2 (9 / 10))
   \<and> predicted (hd (fst (generateMockPredictions 0 (rng_spike 2 (9 / 10)) 1))) = Num 70
   \<and> lower (hd (fst (generateMockPredictions 0 (rng_spike 2 (9 / 10)) 1))) = Num 74
   \<and> \<not> js_le (lower (hd (fst (generateMockPredictions 0 (rng_spike 2 (9 / 10)) 1))))
          (predicted (hd (fst (generateMockPredictions 0 (rng_spike 2 (9 / 10)) 1))))"
proof -
  have "valid_rng (rng_spike 2 (9 / 10))"
    by (rule valid_rng_spike) simp_all
  moreover have "predicted (hd (fst (generateMockPredictions 0 (rng_spike 2 (9 / 10)) 1))) = Num 70"
    by (simp add: generateMockPredictions_def rng_spike_def Math_random_def floor_scaled_def)
  moreover have "lower (hd (fst (generateMockPredictions 0 (rng_spike 2 (9 / 10)) 1))) = Num 74"
    by (simp add: generateMockPredictions_def rng_spike_def Math_random_def floor_scaled_def)
  ultimately show ?thesis by (simp add: js_le_def)
qed

subsection \<open>The synthetic real-time records\<close>

lemma pick_sentiment_valid:
  "valid_rng g \<Longrightarrow> pick_sentiment g = (s, g') \<Longrightarrow> valid_rng g'"
  by (auto simp: pick_sentiment_def Math_random_def valid_rng_def Let_def split: if_splits)

lemma mock_score_rangesI:
  "0 \<le> r1 \<Longrightarrow> r1 < 1 \<Longrightarrow> 0 \<le> r2 \<Longrightarrow> r2 < 1 \<Longrightarrow> 0 \<le> r3 \<Longrightarrow> r3 < 1 \<Longrightarrow>
   mock_score_ranges (Num (r1 * 40 + 50)) (Num (r2 * 20 + 5)) (Num (r3 * 20 + 5))"
  by (simp add: mock_score_ranges_def)

lemma mockFeed_loop_ranges:
  "valid_rng g \<Longrightarrow> x \<in> set (fst (mockFeed_loop now i k g)) \<Longrightarrow>
   mock_score_ranges (f_positive x) (f_negative x) (f_neutral x)"
proof (induction k arbitrary: i g)
  case 0
  then show ?case by simp
next
  case (Suc k)
  obtain r1 g1 where d1: "Math_random g = (r1, g1)" by (cases "Math_random g")
  obtain r2 g2 where d2: "Math_random g1 = (r2, g2)" by (cases "Math_random g1")
  obtain r3 g3 where d3: "Math_random g2 = (r3, g3)" by (cases "Math_random g2")
  note v1 = Math_random_valid [OF Suc.prems(1) d1]
  note v2 = Math_random_valid [OF _ d2]
  note v3 = Math_random_valid [OF _ d3]
  have g3: "valid_rng g3" and r: "0 \<le> r1" "r1 < 1" "0 \<le> r2" "r2 < 1" "0 \<le> r3" "r3 < 1"
    using v1 v2 v3 by blast+
  from Suc.prems(2) d1 d2 d3
  consider (head) "f_positive x = Num (r1 * 40 + 50)" "f_negative x = Num (r2 * 20 + 5)"
      "f_neutral x = Num (r3 * 20 + 5)"
    | (tail) "x \<in> set (fst (mockFeed_loop now (Suc i) k g3))"
    by (auto simp: split_def Let_def)
  then show ?case
  proof cases
    case head
    with mock_score_rangesI [OF r] show ?thesis by simp
  next
    case tail
    with Suc.IH [OF g3] show ?thesis by blast
  qed
qed

lemma mockRealtime_loop_ranges:
  "valid_rng g \<Longrightarrow> x \<in> set (fst (mockRealtime_loop tz now k g)) \<Longrightarrow>
   mock_score_ranges (positive x) (negative x) (neutral x)"
proof (induction k arbitrary: g)
  case 0
  then show ?case by simp
next
  case (Suc k)
  obtain r1 g1 where d1: "Math_random g = (r1, g1)" by (cases "Math_random g")
  obtain r2 g2 where d2: "Math_random g1 = (r2, g2)" by (cases "Math_random g1")
  obtain r3 g3 where d3: "Math_random g2 = (r3, g3)" by (cases "Math_random g2")
  obtain s g4 where d4: "pick_sentiment g3 = (s, g4)" by (cases "pick_sentiment g3")
  obtain r5 g5 where d5: "Math_random g4 = (r5, g5)" by (cases "Math_random g4")
  obtain r6 g6 where d6: "Math_random g5 = (r6, g6)" by (cases "Math_random g5")
  note v1 = Math_random_valid [OF Suc.prems(1) d1]
  note v2 = Math_random_valid [OF _ d2]
  note v3 = Math_random_valid [OF _ d3]
  have g3: "valid_rng g3" and r: "0 \<le> r1" "r1 < 1" "0 \<le> r2" "r2 < 1" "0 \<le> r3" "r3 < 1"
    using v1 v2 v3 by blast+
  have g4: "valid_rng g4" using pick_sentiment_valid [OF g3 d4] .
  have g6: "valid_rng g6"
    using Math_random_valid [OF _ d5] Math_random_valid [OF _ d6] g4 by blast
  from Suc.prems(2) d1 d2 d3 d4 d5 d6
  consider (head) "positive x = Num (r1 * 40 + 50)" "negative x = Num (r2 * 20 + 5)"
      "neutral x = Num (r3 * 20 + 5)"
    | (tail) "x \<in> set (fst (mockRealtime_loop tz now k g6))"
    by (auto simp: split_def Let_def)
  then show ?case
  proof cases
    case head
    with mock_score_rangesI [OF r] show ?thesis by simp
  next
    case tail
    with Suc.IH [OF g6] show ?thesis by blast
  qed
qed

lemma mock_score_rangesD:
  "mock_score_ranges p n u \<Longrightarrow>
   \<exists>a b c. p = Num a \<and> n = Num b \<and> u = Num c
     \<and> 50 \<le> a \<and> a \<le> 90 \<and> 5 \<le> b \<and> b \<le> 25 \<and> 5 \<le> c \<and> c \<le> 25
     \<and> 0 \<le> a \<and> a \<le> 100 \<and> 0 \<le> b \<and> b \<le> 100 \<and> 0 \<le> c \<and> c \<le> 100
     \<and> 60 \<le> a + b + c \<and> a + b + c \<le> 140"
  by (auto simp: mock_score_ranges_def split: jsval.splits)

subsection \<open>Field resolution\<close>

lemma resolved_shift: "resolved vs (\<lambda>n. g (n + k)) j = resolved vs g (j + k)"
  by (simp add: resolved_def)

lemma resolve_field_000_resolved:
  "resolve_field_000 a b c g = (resolved [a, b, c] g 0, \<lambda>n. g (n + draws [a, b, c]))"
  by (simp add: resolve_field_000_def resolved_def draws_def Math_random_def)

lemma resolve_field_001_resolved:
  "resolve_field_001 a b g = (resolved [a, b] g 0, \<lambda>n. g (n + draws [a, b]))"
  by (simp add: resolve_field_001_def resolved_def draws_def Math_random_def)

lemma map_item_000_fields:
  "fst (map_item_000 now item g) =
     \<lparr> f_timestamp = label_or (timestamp item) (LocaleTime now),
       f_positive =
         resolved [positive item, pos item, scores_get (scores item) s_positive] g 0,
       f_negative =
         resolved [negative item, neg item, scores_get (scores item) s_negative] g
           (draws [positive item, pos item, scores_get (scores item) s_positive]),
       f_neutral =
         resolved [neutral item, neu item, scores_get (scores item) s_neutral] g
           (draws [positive item, pos item, scores_get (scores item) s_positive]
            + draws [negative item, neg item, scores_get (scores item) s_negative]) \<rparr>"
  by (simp add: map_item_000_def resolve_field_000_resolved resolved_shift add.commute)

lemma map_item_001_fields:
  "fst (map_item_001 now item g) =
     \<lparr> f_timestamp = label_or (timestamp item) (LocaleTime now),
       f_positive = resolved [positive item, pos item] g 0,
       f_negative = resolved [negative item, neg item] g (draws [positive item, pos item]),
       f_neutral =
         resolved [neutral item, neu item] g
           (draws [positive item, pos item] + draws [negative item, neg item]) \<rparr>"
  by (simp add: map_item_001_def resolve_field_001_resolved resolved_shift add.commute)

lemma copied_or_random_resolved:
  "valid_rng g \<Longrightarrow> copied_or_random vs (resolved vs g k)"
proof -
  assume "valid_rng g"
  then have "0 \<le> g k" "g k < 1" by (simp_all add: valid_rng_def)
  then show ?thesis
    by (simp add: copied_or_random_def resolved_def random_percent_def split: option.splits)
qed

text \<open>
  C3 (amended). Every record of either synthetic generator has positive in [50, 90]
  and negative and neutral in [5, 25]: each component lies in [0, 100], and the sum
  lies in [60, 140]; it is not scaled to 100. Both mappings of fetched items give
  each field the first of its sources that is present, copied as it is, without
  scaling or clamping, and a number in [0, 100] when no source is present; the
  sources are the full-name key, the abbreviated key and, in part_000, the nested
  scores object.
\<close>

theorem mock_scores_in_range:
  assumes "valid_rng g"
  shows "(\<forall>x \<in> set (fst (generateMockRealtimeData_001 tz now g limit)).
            \<exists>a b c. positive x = Num a \<and> negative x = Num b \<and> neutral x = Num c
              \<and> 50 \<le> a \<and> a \<le> 90 \<and> 5 \<le> b \<and> b \<le> 25 \<and> 5 \<le> c \<and> c \<le> 25
              \<and> 0 \<le> a \<and> a \<le> 100 \<and> 0 \<le> b \<and> b \<le> 100 \<and> 0 \<le> c \<and> c \<le> 100
              \<and> 60 \<le> a + b + c \<and> a + b + c \<le> 140)
       \<and> (\<forall>x \<in> set (fst (generateMockRealtimeData_000 now g)).
            \<exists>a b c. f_positive x = Num a \<and> f_negative x = Num b \<and> f_neutral x = Num c
              \<and> 50 \<le> a \<and> a \<le> 90 \<and> 5 \<le> b \<and> b \<le> 25 \<and> 5 \<le> c \<and> c \<le> 25
              \<and> 0 \<le> a \<and> a \<le> 100 \<and> 0 \<le> b \<and> b \<le> 100 \<and> 0 \<le> c \<and> c \<le> 100
              \<and> 60 \<le> a + b + c \<and> a + b + c \<le> 140)
       \<and> copied_or_random [positive item, pos item, scores_get (scores item) s_positive]
            (f_positive (fst (map_item_000 now item g)))
       \<and> copied_or_random [negative item, neg item, scores_get (scores item) s_negative]
            (f_negative (fst (map_item_000 now item g)))
       \<and> copied_or_random [neutral item, neu item, scores_get (scores item) s_neutral]
            (f_neutral (fst (map_item_000 now item g)))
       \<and> copied_or_random [positive item, pos item]
            (f_positive (fst (map_item_001 now item g)))
       \<and> copied_or_random [negative item, neg item]
            (f_negative (fst (map_item_001 now item g)))
       \<and> copied_or_random [neutral item, neu item]
            (f_neutral (fst (map_item_001 now item g)))"
proof (intro conjI ballI)
  fix x assume "x \<in> set (fst (generateMockRealtimeData_001 tz now g limit))"
  with assms have "mock_score_ranges (positive x) (negative x) (neutral x)"
    unfolding generateMockRealtimeData_001_def by (rule mockRealtime_loop_ranges)
  then show "\<exists>a b c. positive x = Num a \<and> negative x = Num b \<and> neutral x = Num c
              \<and> 50 \<le> a \<and> a \<le> 90 \<and> 5 \<le> b \<and> b \<le> 25 \<and> 5 \<le> c \<and> c \<le> 25
              \<and> 0 \<le> a \<and> a \<le> 100 \<and> 0 \<le> b \<and> b \<le> 100 \<and> 0 \<le> c \<and> c \<le> 100
              \<and> 60 \<le> a + b + c \<and> a + b + c \<le> 140"
    by (rule mock_score_rangesD)
next
  fix x assume "x \<in> set (fst (generateMockRealtimeData_000 now g))"
  with assms have "mock_score_ranges (f_positive x) (f_negative x) (f_neutral x)"
    unfolding generateMockRealtimeData_000_def by (rule mockFeed_loop_ranges)
  then show "\<exists>a b c. f_positive x = Num a \<and> f_negative x = Num b \<and> f_neutral x = Num c
              \<and> 50 \<le> a \<and> a \<le> 90 \<and> 5 \<le> b \<and> b \<le> 25 \<and> 5 \<le> c \<and> c \<le> 25
              \<and> 0 \<le> a \<and> a \<le> 100 \<and> 0 \<le> b \<and> b \<le> 100 \<and> 0 \<le> c \<and> c \<le> 100
              \<and> 60 \<le> a + b + c \<and> a + b + c \<le> 140"
    by (rule mock_score_rangesD)
qed (simp_all only: map_item_000_fields map_item_001_fields feed_point.simps
    copied_or_random_resolved [OF assms])

theorem mock_scores_in_range_witness:
  "valid_rng rng_zero
   \<and> positive (hd (fst (generateMockRealtimeData_001 utc_zone 0 rng_zero 1))) = Num 50
   \<and> f_negative (hd (fst (generateMockRealtimeData_000 0 rng_zero))) = Num 5
   \<and> f_positive (fst (map_item_000 0 overshoot_item rng_zero)) = Num 150
   \<and> f_negative (fst (map_item_001 0 nested_only_item rng_zero)) = Num 0"
proof -
  note th = mock_scores_in_range [OF valid_rng_zero, of utc_zone 0 1 overshoot_item]
  note th' = mock_scores_in_range [OF valid_rng_zero, of utc_zone 0 1 nested_only_item]
  have m1: "hd (fst (generateMockRealtimeData_001 utc_zone 0 rng_zero 1))
              \<in> set (fst (generateMockRealtimeData_001 utc_zone 0 rng_zero 1))"
    by (simp add: generateMockRealtimeData_001_def split_def Let_def)
  have m2: "hd (fst (generateMockRealtimeData_000 0 rng_zero))
              \<in> set (fst (generateMockRealtimeData_000 0 rng_zero))"
    by (simp add: generateMockRealtimeData_000_def eval_nat_numeral split_def Let_def)
  have e1: "positive (hd (fst (generateMockRealtimeData_001 utc_zone 0 rng_zero 1))) = Num 50"
    by (simp add: generateMockRealtimeData_001_def rng_zero_def Math_random_def
        pick_sentiment_def Let_def)
  have e2: "f_negative (hd (fst (generateMockRealtimeData_000 0 rng_zero))) = Num 5"
    by (simp add: generateMockRealtimeData_000_def rng_zero_def Math_random_def
        eval_nat_numeral)
  from th have "copied_or_random
      [positive overshoot_item, pos overshoot_item,
       scores_get (scores overshoot_item) s_positive]
      (f_positive (fst (map_item_000 0 overshoot_item rng_zero)))"
    by blast
  then have e3: "f_positive (fst (map_item_000 0 overshoot_item rng_zero)) = Num 150"
    by (simp add: copied_or_random_def overshoot_item_def)
  have e4: "f_negative (fst (map_item_001 0 nested_only_item rng_zero)) = Num 0"
    by (simp add: map_item_001_fields resolved_def nested_only_item_def random_percent_def
        rng_zero_def)
  from th' have "copied_or_random [negative nested_only_item, neg nested_only_item]
      (f_negative (fst (map_item_001 0 nested_only_item rng_zero)))"
    by blast
  with e1 e2 e3 e4 m1 m2 valid_rng_zero show ?thesis by simp
qed

text \<open>
  C3 as stated fails: with all draws 0 a synthetic record is (50, 5, 5), of sum 60,
  in both generators; and a fetched item (150, 10, 10) is mapped to itself.
\<close>

theorem score_sum_counterexample:
  "valid_rng rng_zero
   \<and> positive (hd (fst (generateMockRealtimeData_001 utc_zone 0 rng_zero 1))) = Num 50
   \<and> negative (hd (fst (generateMockRealtimeData_001 utc_zone 0 rng_zero 1))) = Num 5
   \<and> neutral (hd (fst (generateMockRealtimeData_001 utc_zone 0 rng_zero 1))) = Num 5
   \<and> \<not> spec_score_invariant
         (positive (hd (fst (generateMockRealtimeData_001 utc_zone 0 rng_zero 1))))
         (negative (hd (fst (generateMockRealtimeData_001 utc_zone 0 rng_zero 1))))
         (neutral (hd (fst (generateMockRealtimeData_001 utc_zone 0 rng_zero 1))))
   \<and> \<not> spec_score_invariant
         (f_positive (hd (fst (generateMockRealtimeData_000 0 rng_zero))))
         (f_negative (hd (fst (generateMockRealtimeData_000 0 rng_zero))))
         (f_neutral (hd (fst (generateMockRealtimeData_000 0 rng_zero))))
   \<and> \<not> spec_score_invariant
         (f_positive (fst (map_item_000 0 overshoot_item rng_zero)))
         (f_negative (fst (map_item_000 0 overshoot_item rng_zero)))
         (f_neutral (fst (map_item_000 0 overshoot_item rng_zero)))"
proof -
  have a: "hd (fst (generateMockRealtimeData_001 utc_zone 0 rng_zero 1)) =
      \<lparr> timestamp = Some (LocaleTime (- 60000)), positive = Num 50, pos = Undefined,
        negative = Num 5, neg = Undefined, neutral = Num 5, neu = Undefined, scores = None,
        sentiment = Some ''neutral'', confidence = Num (7 / 10), source = Some ''twitter'' \<rparr>"
    by (simp add: generateMockRealtimeData_001_def rng_zero_def Math_random_def
        pick_sentiment_def pick_source_def Let_def setMinutes_back_utc)
  have b: "hd (fst (generateMockRealtimeData_000 0 rng_zero)) =
      \<lparr> f_timestamp = LocaleTime 0, f_positive = Num 50, f_negative = Num 5,
        f_neutral = Num 5 \<rparr>"
    by (simp add: generateMockRealtimeData_000_def rng_zero_def Math_random_def
        eval_nat_numeral)
  have c: "fst (map_item_000 0 overshoot_item rng_zero) =
      \<lparr> f_timestamp = Text ''10:00:00'', f_positive = Num 150, f_negative = Num 10,
        f_neutral = Num 10 \<rparr>"
    by (simp add: map_item_000_def overshoot_item_def resolve_field_000_def label_or_def)
  show ?thesis
    unfolding a b c by (simp add: spec_score_invariant_def valid_rng_zero)
qed

text \<open>
  C4 (amended). In the dashboard of part_000 each of the three sentiment fields is
  resolved by trying, in order, the full-name key, the abbreviated key and the
  nested scores object; the first source that is not nullish wins, and only when
  all three are nullish is a random value drawn (\<^verbatim>\<open>Math.random() * 100\<close>, the draws
  taken in the order positive, negative, neutral). In the dashboard of part_001 the
  nested scores object is not consulted: the order of each field is full-name key,
  abbreviated key, random value.
\<close>

theorem resolve_field_order:
  "fst (map_item_000 now item g) =
     \<lparr> f_timestamp = label_or (timestamp item) (LocaleTime now),
       f_positive =
         resolved [positive item, pos item, scores_get (scores item) s_positive] g 0,
       f_negative =
         resolved [negative item, neg item, scores_get (scores item) s_negative] g
           (draws [positive item, pos item, scores_get (scores item) s_positive]),
       f_neutral =
         resolved [neutral item, neu item, scores_get (scores item) s_neutral] g
           (draws [positive item, pos item, scores_get (scores item) s_positive]
            + draws [negative item, neg item, scores_get (scores item) s_negative]) \<rparr>
   \<and> fst (map_item_001 now item g) =
     \<lparr> f_timestamp = label_or (timestamp item) (LocaleTime now),
       f_positive = resolved [positive item, pos item] g 0,
       f_negative = resolved [negative item, neg item] g (draws [positive item, pos item]),
       f_neutral =
         resolved [neutral item, neu item] g
           (draws [positive item, pos item] + draws [negative item, neg item]) \<rparr>"
  using map_item_000_fields map_item_001_fields by (rule conjI)

text \<open>
  C4 as stated fails on part_001: an item that holds its scores in the nested
  object only gets a random value for each field there, not the nested one.
\<close>

theorem nested_scores_ignored_counterexample:
  "first_present [positive nested_only_item, pos nested_only_item,
      scores_get (scores nested_only_item) s_positive] = Some (Num 80)
   \<and> f_positive (fst (map_item_000 0 nested_only_item rng_zero)) = Num 80
   \<and> f_positive (fst (map_item_001 0 nested_only_item rng_zero)) = Num 0
   \<and> f_positive (fst (map_item_001 0 nested_only_item rng_zero)) \<noteq> Num 80"
  by (simp add: nested_only_item_def scores_get_def map_item_000_def map_item_001_def
      resolve_field_000_def resolve_field_001_def Math_random_def rng_zero_def
      random_percent_def)

subsection \<open>The length of the feed\<close>




lemma mockRealtime_loop_length: "length (fst (mockRealtime_loop tz now k g)) = k"
  by (induction k arbitrary: g) (simp_all add: split_def Let_def)









subsection \<open>The order of the real-time sequence\<close>


lemma mockRealtime_loop_stamp:
  "j < k \<Longrightarrow>
   timestamp (fst (mockRealtime_loop tz now k g) ! j)
     = Some (LocaleTime (setMinutes_back tz now (int k - int j)))"
proof (induction k arbitrary: g j)
  case 0
  then show ?case by simp
next
  case (Suc k)
  show ?case
  proof (cases j)
    case 0
    then show ?thesis by (simp add: split_def Let_def)
  next
    case (Suc j')
    with Suc.prems have "j' < k" by simp
    from Suc.IH [OF this] Suc show ?thesis
      by (simp add: split_def Let_def)
  qed
qed


lemma map_items_total: "\<exists>ps. fst (map_items f (map Some items) g) = Inr ps"
proof (induction items arbitrary: g)
  case Nil
  then show ?case by simp
next
  case (Cons it items)
  obtain p g1 where f: "f it g = (p, g1)" by (cases "f it g")
  from Cons [of g1] obtain qs where "fst (map_items f (map Some items) g1) = Inr qs"
    by blast
  with f show ?case
    by (cases "map_items f (map Some items) g1") simp
qed





text \<open>
  The condition on the wall clock cannot be dropped: on a host whose clocks went
  forward an hour ten minutes ago, the wall-clock minutes 11 and 12 minutes back
  fall in the skipped hour, and the first two of twelve synthetic records are
  stamped 48 and 49 minutes after now, the third 10 minutes before now.
\<close>

lemma spring_forward_stamps:
  "timestamp (fst (generateMockRealtimeData_001 spring_forward_zone 600000 rng_zero 12) ! 0)
     = Some (LocaleTime (600000 + 48 * 60000))
   \<and> timestamp (fst (generateMockRealtimeData_001 spring_forward_zone 600000 rng_zero 12) ! 1)
     = Some (LocaleTime (600000 + 49 * 60000))
   \<and> timestamp (fst (generateMockRealtimeData_001 spring_forward_zone 600000 rng_zero 12) ! 2)
     = Some (LocaleTime (600000 - 10 * 60000))
   \<and> \<not> wall_clock_steady spring_forward_zone 600000 12"
proof -
  have "setMinutes_back spring_forward_zone 600000 12 \<noteq> 600000 - 12 * 60000"
    by (simp add: setMinutes_back_def spring_forward_zone_def)
  then have "\<not> wall_clock_steady spring_forward_zone 600000 12"
    unfolding wall_clock_steady_def by (metis order_refl one_le_numeral)
  then show ?thesis
    by (simp add: generateMockRealtimeData_001_def mockRealtime_loop_stamp
        setMinutes_back_def spring_forward_zone_def)
qed


subsection \<open>The API module: failures of the request\<close>

lemma generateMockRealtimeData_001_length:
  "length (fst (generateMockRealtimeData_001 tz now g limit)) = nat limit"
  by (simp add: generateMockRealtimeData_001_def mockRealtime_loop_length)

text \<open>
  C1 (amended). \<^verbatim>\<open>getRealtimeApi\<close> of the API module of part_001 never hands an
  error to its caller: when the request fails it returns \<^verbatim>\<open>{data: [...]}\<close> with the
  \<open>limit\<close> synthetic records, and otherwise the body of the response. \<^verbatim>\<open>getRealtimeApi\<close>
  of src/api.js has no handler: it returns the body when the request succeeds and
  is rejected with the error of the request when it fails.
\<close>

theorem getRealtimeApi_failure_handling:
  "(\<exists>r. fst (getRealtimeApi_001 http tz now g src limit) = Inr r)
   \<and> (\<forall>e. http (src, limit) = Inl e \<longrightarrow>
         fst (getRealtimeApi_001 http tz now g src limit)
           = Inr (RtEnvelope (map Some (fst (generateMockRealtimeData_001 tz now g limit))))
         \<and> length (fst (generateMockRealtimeData_001 tz now g limit)) = nat limit
         \<and> getRealtimeApi_src http src limit = Inl e)
   \<and> (\<forall>body. http (src, limit) = Inr body \<longrightarrow>
         fst (getRealtimeApi_001 http tz now g src limit) = Inr body
         \<and> getRealtimeApi_src http src limit = Inr body)"
proof (intro conjI allI impI)
  show "\<exists>r. fst (getRealtimeApi_001 http tz now g src limit) = Inr r"
    by (cases "http (src, limit)") (simp_all add: getRealtimeApi_001_def split_def Let_def)
next
  fix e assume e: "http (src, limit) = Inl e"
  then show "fst (getRealtimeApi_001 http tz now g src limit)
           = Inr (RtEnvelope (map Some (fst (generateMockRealtimeData_001 tz now g limit))))"
    by (simp add: getRealtimeApi_001_def split_def Let_def)
  show "length (fst (generateMockRealtimeData_001 tz now g limit)) = nat limit"
    by (rule generateMockRealtimeData_001_length)
  from e show "getRealtimeApi_src http src limit = Inl e"
    by (simp add: getRealtimeApi_src_def)
next
  fix body assume b: "http (src, limit) = Inr body"
  then show "fst (getRealtimeApi_001 http tz now g src limit) = Inr body"
    by (simp add: getRealtimeApi_001_def)
  from b show "getRealtimeApi_src http src limit = Inr body"
    by (simp add: getRealtimeApi_src_def)
qed

theorem getRealtimeApi_failure_handling_witness:
  "http_down (''all'', 50 :: int) = (Inl (RequestFailed ''Network Error'') :: js_error + rt_response)
   \<and> fst (getRealtimeApi_001 http_down utc_zone 0 rng_zero ''all'' 50)
       = Inr (RtEnvelope (map Some (fst (generateMockRealtimeData_001 utc_zone 0 rng_zero 50))))
   \<and> length (fst (generateMockRealtimeData_001 utc_zone 0 rng_zero 50)) = 50
   \<and> fst (getRealtimeApi_001 (http_fixed RtOther) utc_zone 0 rng_zero ''all'' 50) = Inr RtOther"
proof -
  have d: "http_down (''all'', 50 :: int)
      = (Inl (RequestFailed ''Network Error'') :: js_error + rt_response)"
    by (simp add: http_down_def)
  have u: "http_fixed RtOther (''all'', 50 :: int) = (Inr RtOther :: js_error + rt_response)"
    by (simp add: http_fixed_def)
  from getRealtimeApi_failure_handling [of http_down utc_zone 0 rng_zero "''all''" 50] d
  have "fst (getRealtimeApi_001 http_down utc_zone 0 rng_zero ''all'' 50)
       = Inr (RtEnvelope (map Some (fst (generateMockRealtimeData_001 utc_zone 0 rng_zero 50))))
      \<and> length (fst (generateMockRealtimeData_001 utc_zone 0 rng_zero 50)) = nat 50"
    by blast
  moreover from getRealtimeApi_failure_handling
      [of "http_fixed RtOther" utc_zone 0 rng_zero "''all''" 50] u
  have "fst (getRealtimeApi_001 (http_fixed RtOther) utc_zone 0 rng_zero ''all'' 50) = Inr RtOther"
    by blast
  ultimately show ?thesis using d by simp
qed

text \<open>
  C1 as stated fails on src/api.js: when the request is rejected, so is
  \<^verbatim>\<open>getRealtimeApi\<close>, with the same error and no fallback payload.
\<close>

theorem getRealtimeApi_src_rejects_counterexample:
  "getRealtimeApi_src http_down ''all'' 50 = Inl (RequestFailed ''Network Error'')"
  by (simp add: getRealtimeApi_src_def http_down_def)

text \<open>
  C5 (amended). Two calls of \<^verbatim>\<open>getRealtimeApi\<close> with the same source and limit return
  the same output whenever the request succeeds with the same body both times:
  the body is returned unchanged, whatever the clock and the random state, and no
  value is drawn. The module keeps no cache: every call issues the request, and on
  the fallback path the output is stamped from the clock and drawn afresh.
\<close>

theorem getRealtimeApi_same_body_same_output:
  assumes "http (src, limit) = Inr body"
  shows "fst (getRealtimeApi_001 http tz now g src limit)
           = fst (getRealtimeApi_001 http tz now' g' src limit)
       \<and> fst (getRealtimeApi_001 http tz now g src limit) = Inr body
       \<and> snd (getRealtimeApi_001 http tz now g src limit) = g"
  using assms by (simp add: getRealtimeApi_001_def)

theorem getRealtimeApi_same_body_same_output_witness:
  "http_fixed RtOther (''all'', 50 :: int) = (Inr RtOther :: js_error + rt_response)
   \<and> fst (getRealtimeApi_001 (http_fixed RtOther) utc_zone 0 rng_zero ''all'' 50)
     = fst (getRealtimeApi_001 (http_fixed RtOther) utc_zone 60000 (rng_step 7 (1 / 2)) ''all'' 50)
   \<and> fst (getRealtimeApi_001 (http_fixed RtOther) utc_zone 0 rng_zero ''all'' 50) = Inr RtOther"
proof -
  have u: "http_fixed RtOther (''all'', 50 :: int) = (Inr RtOther :: js_error + rt_response)"
    by (simp add: http_fixed_def)
  from getRealtimeApi_same_body_same_output
      [where http = "http_fixed RtOther" and tz = utc_zone and src = "''all''" and limit = 50
        and body = RtOther and now = 0 and g = rng_zero and now' = 60000
        and g' = "rng_step 7 (1 / 2)", OF u] u
  show ?thesis by metis
qed

text \<open>
  C5 as stated fails on the fallback path: with the request failing, a call at
  time 0 and a second call 60 seconds later, on the random state that the first
  call left, return different payloads.
\<close>

theorem getRealtimeApi_repeat_counterexample:
  "fst (getRealtimeApi_001 http_down utc_zone 0 (rng_step 7 (1 / 2)) ''all'' 1)
     = Inr (RtEnvelope [Some
         \<lparr> timestamp = Some (LocaleTime (- 60000)), positive = Num 50, pos = Undefined,
           negative = Num 5, neg = Undefined, neutral = Num 5, neu = Undefined,
           scores = None, sentiment = Some ''neutral'', confidence = Num (7 / 10),
           source = Some ''twitter'' \<rparr>])
   \<and> fst (getRealtimeApi_001 http_down utc_zone 60000
            (snd (getRealtimeApi_001 http_down utc_zone 0 (rng_step 7 (1 / 2)) ''all'' 1)) ''all'' 1)
     = Inr (RtEnvelope [Some
         \<lparr> timestamp = Some (LocaleTime 0), positive = Num 70, pos = Undefined,
           negative = Num 15, neg = Undefined, neutral = Num 15, neu = Undefined,
           scores = None, sentiment = Some ''positive'', confidence = Num (17 / 20),
           source = Some ''reviews'' \<rparr>])
   \<and> fst (getRealtimeApi_001 http_down utc_zone 60000
            (snd (getRealtimeApi_001 http_down utc_zone 0 (rng_step 7 (1 / 2)) ''all'' 1)) ''all'' 1)
     \<noteq> fst (getRealtimeApi_001 http_down utc_zone 0 (rng_step 7 (1 / 2)) ''all'' 1)"
  by (simp add: getRealtimeApi_001_def http_down_def generateMockRealtimeData_001_def
      rng_step_def Math_random_def pick_sentiment_def pick_source_def Let_def
      setMinutes_back_utc)

subsection \<open>The fallback of the forecast\<close>

lemma mockPredictions_loop_untagged:
  "p \<in> set (fst (mockPredictions_loop today i k g)) \<Longrightarrow> model_source p = None"
  by (induction k arbitrary: i g) (auto simp: split_def Let_def)

text \<open>
  C8 (amended). When the request for the forecast fails, \<^verbatim>\<open>getPredictionsApi\<close>
  returns the envelope \<^verbatim>\<open>{success: false, predictions: [...]}\<close> holding exactly days
  synthesized points, a non-empty series when days \<ge> 1; the points carry no
  \<^verbatim>\<open>model_source\<close>, the envelope's \<^verbatim>\<open>success: false\<close> marks the fallback. When the
  request succeeds, the body is returned unchanged: this code makes no test of the
  history span and no lookup of a stored batch.
\<close>

theorem getPredictionsApi_fallback:
  "(\<forall>e. http days = Inl e \<longrightarrow>
      fst (getPredictionsApi_001 http today g days)
        = Inr (PredEnvelope False (Some (fst (generateMockPredictions today g days))))
      \<and> length (fst (generateMockPredictions today g days)) = nat days
      \<and> (1 \<le> days \<longrightarrow> fst (generateMockPredictions today g days) \<noteq> [])
      \<and> (\<forall>p \<in> set (fst (generateMockPredictions today g days)). model_source p = None))
   \<and> (\<forall>body. http days = Inr body \<longrightarrow>
         fst (getPredictionsApi_001 http today g days) = Inr body)"
proof (intro conjI allI impI ballI)
  fix e assume "http days = Inl e"
  then show "fst (getPredictionsApi_001 http today g days)
        = Inr (PredEnvelope False (Some (fst (generateMockPredictions today g days))))"
    by (simp add: getPredictionsApi_001_def split_def Let_def)
  show l: "length (fst (generateMockPredictions today g days)) = nat days"
    by (simp add: generateMockPredictions_def mockPredictions_loop_length)
  show "fst (generateMockPredictions today g days) \<noteq> []" if "1 \<le> days"
    using that l by auto
  show "model_source p = None" if "p \<in> set (fst (generateMockPredictions today g days))" for p
    using that unfolding generateMockPredictions_def by (rule mockPredictions_loop_untagged)
next
  fix body assume "http days = Inr body"
  then show "fst (getPredictionsApi_001 http today g days) = Inr body"
    by (simp add: getPredictionsApi_001_def)
qed

theorem getPredictionsApi_fallback_witness:
  "http_down (5 :: int) = (Inl (RequestFailed ''Network Error'') :: js_error + pred_response)
   \<and> (1::int) \<le> 5
   \<and> fst (getPredictionsApi_001 http_down 0 rng_zero 5)
       = Inr (PredEnvelope False (Some (fst (generateMockPredictions 0 rng_zero 5))))
   \<and> length (fst (generateMockPredictions 0 rng_zero 5)) = 5
   \<and> fst (generateMockPredictions 0 rng_zero 5) \<noteq> []
   \<and> fst (getPredictionsApi_001 (http_fixed PredOther) 0 rng_zero 5) = Inr PredOther"
proof -
  have d: "http_down (5 :: int)
      = (Inl (RequestFailed ''Network Error'') :: js_error + pred_response)"
    by (simp add: http_down_def)
  have u: "http_fixed PredOther (5 :: int) = (Inr PredOther :: js_error + pred_response)"
    by (simp add: http_fixed_def)
  from getPredictionsApi_fallback [of http_down 5 0 rng_zero] d
  have "fst (getPredictionsApi_001 http_down 0 rng_zero 5)
       = Inr (PredEnvelope False (Some (fst (generateMockPredictions 0 rng_zero 5))))
     \<and> length (fst (generateMockPredictions 0 rng_zero 5)) = nat 5
     \<and> fst (generateMockPredictions 0 rng_zero 5) \<noteq> []"
    by simp
  moreover from getPredictionsApi_fallback [of "http_fixed PredOther" 5 0 rng_zero] u
  have "fst (getPredictionsApi_001 (http_fixed PredOther) 0 rng_zero 5) = Inr PredOther"
    by blast
  ultimately show ?thesis using d by simp
qed

text \<open>
  C8 as stated fails: the synthesized point of the fallback carries no
  \<^verbatim>\<open>model_source\<close>, so it is not tagged synthetic; the envelope says
  \<^verbatim>\<open>success: false\<close> instead.
\<close>

theorem synthetic_tag_counterexample:
  "fst (getPredictionsApi_001 http_down 0 rng_zero 1)
     = Inr (PredEnvelope False (Some
         [\<lparr> p_date = Some (LocaleDate 1), p_day = None, predicted = Num 70,
            p_value = Undefined, positive_score = Num 70, negative_score = Num 5,
            neutral_score = Num 5, upper = Num 80, upper_bound = Undefined,
            lower = Num 65, lower_bound = Undefined, p_confidence = Num 70,
            model_source = None \<rparr>]))
   \<and> model_source (hd (fst (generateMockPredictions 0 rng_zero 1))) \<noteq> Some ''synthetic''"
  by (simp add: getPredictionsApi_001_def http_down_def generateMockPredictions_def
      rng_zero_def Math_random_def floor_scaled_def)

subsection \<open>The historical series\<close>

lemma mockHistorical_loop_length: "length (fst (mockHistorical_loop today k g)) = k"
  by (induction k arbitrary: g) (simp_all add: split_def Let_def)

lemma mockHistorical_loop_date:
  "j < k \<Longrightarrow>
   b_date (fst (mockHistorical_loop today k g) ! j) = LocaleDate (today - (int k - int j))"
proof (induction k arbitrary: g j)
  case 0
  then show ?case by simp
next
  case (Suc k)
  show ?case
  proof (cases j)
    case 0
    then show ?thesis by (simp add: split_def Let_def)
  next
    case (Suc j')
    with Suc.prems have "j' < k" by simp
    from Suc.IH [OF this] Suc show ?thesis by (simp add: split_def Let_def)
  qed
qed

lemma mockHistorical_loop_ranges:
  "valid_rng g \<Longrightarrow> b \<in> set (fst (mockHistorical_loop today k g)) \<Longrightarrow>
   \<exists>p n u t. b_positive b = Num p \<and> b_negative b = Num n \<and> b_neutral b = Num u
     \<and> total b = Num t \<and> 60 \<le> p \<and> p \<le> 89 \<and> 5 \<le> n \<and> n \<le> 19 \<and> 5 \<le> u \<and> u \<le> 19
     \<and> 1000 \<le> t \<and> t \<le> 1999"
proof (induction k arbitrary: g)
  case 0
  then show ?case by simp
next
  case (Suc k)
  obtain r1 g1 where d1: "Math_random g = (r1, g1)" by (cases "Math_random g")
  obtain r2 g2 where d2: "Math_random g1 = (r2, g2)" by (cases "Math_random g1")
  obtain r3 g3 where d3: "Math_random g2 = (r3, g3)" by (cases "Math_random g2")
  obtain r4 g4 where d4: "Math_random g3 = (r4, g4)" by (cases "Math_random g3")
  note v1 = Math_random_valid [OF Suc.prems(1) d1]
  note v2 = Math_random_valid [OF _ d2]
  note v3 = Math_random_valid [OF _ d3]
  note v4 = Math_random_valid [OF _ d4]
  have g4: "valid_rng g4" and r1: "0 \<le> r1" "r1 < 1" and r2: "0 \<le> r2" "r2 < 1"
    and r3: "0 \<le> r3" "r3 < 1" and r4: "0 \<le> r4" "r4 < 1"
    using v1 v2 v3 v4 by blast+
  from Suc.prems(2) d1 d2 d3 d4
  consider (head) "b_positive b = floor_scaled r1 30 60" "b_negative b = floor_scaled r2 15 5"
      "b_neutral b = floor_scaled r3 15 5" "total b = floor_scaled r4 1000 1000"
    | (tail) "b \<in> set (fst (mockHistorical_loop today k g4))"
    by (auto simp: split_def Let_def)
  then show ?case
  proof cases
    case head
    with floor_scaled_range [OF r1, of 30 60] floor_scaled_range [OF r2, of 15 5]
      floor_scaled_range [OF r3, of 15 5] floor_scaled_range [OF r4, of 1000 1000]
    show ?thesis by auto
  next
    case tail
    with Suc.IH [OF g4] show ?thesis by blast
  qed
qed

text \<open>
  C6 (amended). When the request succeeds, \<^verbatim>\<open>getHistoricalApi\<close> returns the body of
  the response unchanged, whatever the number and the order of its buckets, and
  draws nothing. When the request fails, it returns \<^verbatim>\<open>{success: false, data: [...]}\<close>
  with, for every days \<ge> 1 and every source filter, exactly days synthesized
  buckets, oldest first (bucket j is dated days - j days before the day of the
  request, the last one the day before it), each with a total between 1000 and 1999
  and so never empty, positive between 60 and 89, negative and neutral between 5
  and 19. This code aggregates no records and holds no percentages.
\<close>

theorem getHistoricalApi_buckets:
  assumes "1 \<le> days" and "valid_rng g"
  shows "(\<forall>body. http (days, src) = Inr body \<longrightarrow>
            getHistoricalApi_001 http today g days src = (Inr body, g))
       \<and> (\<forall>e. http (days, src) = Inl e \<longrightarrow>
            fst (getHistoricalApi_001 http today g days src)
              = Inr (HistEnvelope False (Some (fst (generateMockHistoricalData today g days)))))
       \<and> length (fst (generateMockHistoricalData today g days)) = nat days
       \<and> (\<forall>j < nat days. b_date (fst (generateMockHistoricalData today g days) ! j)
             = LocaleDate (today - days + int j))
       \<and> (\<forall>b \<in> set (fst (generateMockHistoricalData today g days)).
             \<exists>p n u t. b_positive b = Num p \<and> b_negative b = Num n \<and> b_neutral b = Num u
               \<and> total b = Num t \<and> 60 \<le> p \<and> p \<le> 89 \<and> 5 \<le> n \<and> n \<le> 19
               \<and> 5 \<le> u \<and> u \<le> 19 \<and> 1000 \<le> t \<and> t \<le> 1999 \<and> 0 \<le> t \<and> t \<noteq> 0)"
proof (intro conjI allI impI ballI)
  fix body assume "http (days, src) = Inr body"
  then show "getHistoricalApi_001 http today g days src = (Inr body, g)"
    by (simp add: getHistoricalApi_001_def)
next
  fix e assume "http (days, src) = Inl e"
  then show "fst (getHistoricalApi_001 http today g days src)
      = Inr (HistEnvelope False (Some (fst (generateMockHistoricalData today g days))))"
    by (simp add: getHistoricalApi_001_def split_def Let_def)
next
  show "length (fst (generateMockHistoricalData today g days)) = nat days"
    by (simp add: generateMockHistoricalData_def mockHistorical_loop_length)
next
  fix j assume "j < nat days"
  with assms(1) show "b_date (fst (generateMockHistoricalData today g days) ! j)
      = LocaleDate (today - days + int j)"
    by (simp add: generateMockHistoricalData_def mockHistorical_loop_date)
next
  fix b assume "b \<in> set (fst (generateMockHistoricalData today g days))"
  with assms(2) have "\<exists>p n u t. b_positive b = Num p \<and> b_negative b = Num n
      \<and> b_neutral b = Num u \<and> total b = Num t \<and> 60 \<le> p \<and> p \<le> 89 \<and> 5 \<le> n \<and> n \<le> 19
      \<and> 5 \<le> u \<and> u \<le> 19 \<and> 1000 \<le> t \<and> t \<le> 1999"
    unfolding generateMockHistoricalData_def by (rule mockHistorical_loop_ranges)
  then show "\<exists>p n u t. b_positive b = Num p \<and> b_negative b = Num n \<and> b_neutral b = Num u
      \<and> total b = Num t \<and> 60 \<le> p \<and> p \<le> 89 \<and> 5 \<le> n \<and> n \<le> 19
      \<and> 5 \<le> u \<and> u \<le> 19 \<and> 1000 \<le> t \<and> t \<le> 1999 \<and> 0 \<le> t \<and> t \<noteq> 0"
    by force
qed

theorem getHistoricalApi_buckets_witness:
  "(1::int) \<le> 3 \<and> valid_rng rng_zero
   \<and> http_down (3 :: int, ''all'') = (Inl (RequestFailed ''Network Error'') :: js_error + hist_response)
   \<and> fst (getHistoricalApi_001 http_down 3 rng_zero 3 ''all'')
       = Inr (HistEnvelope False (Some (fst (generateMockHistoricalData 3 rng_zero 3))))
   \<and> length (fst (generateMockHistoricalData 3 rng_zero 3)) = 3
   \<and> b_date (fst (generateMockHistoricalData 3 rng_zero 3) ! 0) = LocaleDate 0
   \<and> b_date (fst (generateMockHistoricalData 3 rng_zero 3) ! 2) = LocaleDate 2
   \<and> total (fst (generateMockHistoricalData 3 rng_zero 3) ! 0) = Num 1000
   \<and> http_fixed (HistArray six_buckets) (3 :: int, ''all'')
       = (Inr (HistArray six_buckets) :: js_error + hist_response)
   \<and> getHistoricalApi_001 (http_fixed (HistArray six_buckets)) 3 rng_zero 3 ''all''
       = (Inr (HistArray six_buckets), rng_zero)"
proof -
  have d: "(1::int) \<le> 3" by simp
  note th = getHistoricalApi_buckets [OF d valid_rng_zero, of http_down "''all''" 3]
  note th' = getHistoricalApi_buckets
    [OF d valid_rng_zero, of "http_fixed (HistArray six_buckets)" "''all''" 3]
  have h: "http_down (3 :: int, ''all'')
      = (Inl (RequestFailed ''Network Error'') :: js_error + hist_response)"
    by (simp add: http_down_def)
  have u: "http_fixed (HistArray six_buckets) (3 :: int, ''all'')
      = (Inr (HistArray six_buckets) :: js_error + hist_response)"
    by (simp add: http_fixed_def)
  from th h have a: "fst (getHistoricalApi_001 http_down 3 rng_zero 3 ''all'')
      = Inr (HistEnvelope False (Some (fst (generateMockHistoricalData 3 rng_zero 3))))"
    by blast
  from th have l: "length (fst (generateMockHistoricalData 3 rng_zero 3)) = nat 3"
    by blast
  from th have "\<forall>j < nat 3. b_date (fst (generateMockHistoricalData 3 rng_zero 3) ! j)
      = LocaleDate (3 - 3 + int j)"
    by blast
  then have b: "b_date (fst (generateMockHistoricalData 3 rng_zero 3) ! 0) = LocaleDate 0"
    "b_date (fst (generateMockHistoricalData 3 rng_zero 3) ! 2) = LocaleDate 2"
    by simp_all
  have t: "total (fst (generateMockHistoricalData 3 rng_zero 3) ! 0) = Num 1000"
    by (simp add: generateMockHistoricalData_def eval_nat_numeral rng_zero_def Math_random_def
        floor_scaled_def)
  from th' u have c: "getHistoricalApi_001 (http_fixed (HistArray six_buckets)) 3 rng_zero 3 ''all''
      = (Inr (HistArray six_buckets), rng_zero)"
    by blast
  from d valid_rng_zero h a l b t u c show ?thesis by simp
qed

text \<open>
  C6 as stated fails on the success path: for days = 7, a response that holds six
  buckets is returned as it is, six buckets and not seven.
\<close>

theorem getHistoricalApi_six_of_seven_counterexample:
  "getHistoricalApi_001 (http_fixed (HistArray six_buckets)) 0 rng_zero 7 ''all''
     = (Inr (HistArray six_buckets), rng_zero)
   \<and> length six_buckets = 6
   \<and> length six_buckets \<noteq> nat 7"
  by (simp add: getHistoricalApi_001_def http_fixed_def six_buckets_def)

end
